theory Spec2Isabelle
  imports Main "HOL-Library.AList" "HOL-Library.Multiset"
begin

section \<open>The spaced-repetition scheduler of spaced-repetition.js\<close>

text \<open>
  A shallow embedding of the class \<^verbatim>\<open>SpacedRepetitionSystem\<close>. The conventions:
  \<^item> A point in time is the number of milliseconds since the epoch, which is what a
    JavaScript \<^verbatim>\<open>Date\<close> holds. The store keeps dates as ISO-8601 strings
    (\<^verbatim>\<open>toISOString\<close>), which have millisecond precision, so writing a date and reading
    it back with \<^verbatim>\<open>new Date(s)\<close> is the identity and the model keeps the number.
  \<^item> Every method takes the reading of the wall clock as the argument \<open>now\<close>. A method
    that evaluates \<^verbatim>\<open>new Date()\<close> several times (\<^verbatim>\<open>saveItem\<close> does so three times) is
    modelled with all its readings equal to \<open>now\<close>: one call is one instant.
  \<^item> \<^verbatim>\<open>setDate(getDate() + n)\<close> moves a date by \<open>n\<close> calendar days of local time. The
    model adds \<open>n\<close> times 86400000 ms, which is the same as long as the offset of local
    time from UTC does not change in between.
  \<^item> The object read from \<^verbatim>\<open>localStorage\<close> is a list of (key, item) pairs in the order
    in which \<^verbatim>\<open>for (const key in allData)\<close> enumerates them. Property lookup
    \<^verbatim>\<open>allData[key]\<close> finds an entry of this list or, failing that, a member that the
    object inherits from \<^verbatim>\<open>Object.prototype\<close>; an item is an object and therefore truthy.
    The built-in objects are as the language defines them when a method is called, and
    what a method assigns to a property of a built-in object is not part of the world.
  \<^item> What a method does to the outside world is recorded in a trace of events.
\<close>

subsection \<open>JavaScript values\<close>

text \<open>The primitive values that can be passed as \<^verbatim>\<open>level\<close> and \<^verbatim>\<open>type\<close>. Numbers are
  integers here (no \<^verbatim>\<open>NaN\<close>), so that \<^verbatim>\<open>===\<close> on these values is equality.\<close>

datatype jsval = JNull | JUndefined | JBool bool | JNum int | JStr string

text \<open>ToBoolean, as used by \<^verbatim>\<open>if (level && ...)\<close>.\<close>

fun truthy :: "jsval \<Rightarrow> bool" where
  "truthy JNull = False"
| "truthy JUndefined = False"
| "truthy (JBool b) = b"
| "truthy (JNum n) = (n \<noteq> 0)"
| "truthy (JStr s) = (s \<noteq> [])"

text \<open>A default parameter \<^verbatim>\<open>level = null\<close>: only \<^verbatim>\<open>undefined\<close> is replaced.\<close>

fun defaultNull :: "jsval \<Rightarrow> jsval" where
  "defaultNull JUndefined = JNull"
| "defaultNull v = v"

text \<open>Decimal digits of a number, for the template literal that builds a key (the
  notation that JavaScript uses for an integer of fewer than 22 digits).\<close>

definition digit_char :: "nat \<Rightarrow> char" where
  "digit_char n = ''0123456789'' ! n"

function string_of_nat :: "nat \<Rightarrow> string" where
  "string_of_nat n =
     (if n < 10 then [digit_char n] else string_of_nat (n div 10) @ [digit_char (n mod 10)])"
  by pat_completeness auto
termination
  by (relation "measure (\<lambda>n. n)") auto

definition string_of_int :: "int \<Rightarrow> string" where
  "string_of_int i = (if i < 0 then CHR ''-'' # string_of_nat (nat (- i)) else string_of_nat (nat i))"

text \<open>ToString, as applied by a template literal.\<close>

fun js_toString :: "jsval \<Rightarrow> string" where
  "js_toString JNull = ''null''"
| "js_toString JUndefined = ''undefined''"
| "js_toString (JBool b) = (if b then ''true'' else ''false'')"
| "js_toString (JNum n) = string_of_int n"
| "js_toString (JStr s) = s"

subsection \<open>Items, the store and the outside world\<close>

type_synonym timestamp = int

record 'd review_item =
  level :: jsval
  type :: jsval
  item_id :: int
  data :: 'd
  savedDate :: timestamp
  lastReviewed :: "timestamp option"
  reviewCount :: nat
  nextReviewDate :: timestamp
  lastModified :: timestamp

type_synonym 'd store = "(string \<times> 'd review_item) list"

text \<open>The effects a method has besides its result: \<^verbatim>\<open>localStorage.setItem\<close>,
  \<^verbatim>\<open>localStorage.removeItem\<close>, \<^verbatim>\<open>console.log\<close>, \<^verbatim>\<open>console.error\<close> and \<^verbatim>\<open>alert\<close>.\<close>

datatype event = SetItem | RemoveItem | ConsoleLog | ConsoleError | Alert

text \<open>The world: what \<^verbatim>\<open>localStorage\<close> holds under \<^verbatim>\<open>storageKey\<close> (nothing, or a value
  that was serialised there), and the trace of effects so far. The scheduler works on
  worlds whose stored value is a store; \<^verbatim>\<open>importData\<close> writes whatever was parsed.\<close>

record 'b world =
  storage :: "'b option"
  trace :: "event list"

definition emit :: "event \<Rightarrow> 'b world \<Rightarrow> 'b world" where
  "emit e w = w\<lparr>trace := trace w @ [e]\<rparr>"

definition msPerDay :: int where
  "msPerDay = 86400000"

definition intervals :: "nat list" where
  "intervals = [1, 3, 7, 14, 30]"

definition levels :: "string list" where
  "levels = [''a1'', ''a2'', ''b1'', ''b2'', ''c1'', ''c2'']"

subsection \<open>Persistence\<close>

definition getAllData :: "'d store world \<Rightarrow> 'd store" where
  "getAllData w = (case storage w of None \<Rightarrow> [] | Some d \<Rightarrow> d)"

definition saveAllData :: "'b \<Rightarrow> 'b world \<Rightarrow> 'b world" where
  "saveAllData d w = emit SetItem (w\<lparr>storage := Some d\<rparr>)"

subsection \<open>The interval ladder\<close>

definition calculateNextReview :: "timestamp \<Rightarrow> nat \<Rightarrow> timestamp" where
  "calculateNextReview today reviewCount' =
     (let intervalIndex = min reviewCount' (length intervals - 1);
          daysToAdd = intervals ! intervalIndex
      in today + int daysToAdd * msPerDay)"

subsection \<open>Saving, reviewing and deleting\<close>

definition mkKey :: "jsval \<Rightarrow> jsval \<Rightarrow> int \<Rightarrow> string" where
  "mkKey lvl ty i = js_toString lvl @ ''_'' @ js_toString ty @ ''_'' @ string_of_int i"

text \<open>A key built by \<open>mkKey\<close> contains an underscore, so it is not an array index and a
  new property with that key is enumerated last: \<open>AList.update\<close> replaces the value of
  a key in place and appends a key that is new. Such a key ends in a digit, so it is
  not the name of a member of \<^verbatim>\<open>Object.prototype\<close> (this is proved below), and
  \<^verbatim>\<open>allData[key]\<close> in \<^verbatim>\<open>saveItem\<close> is the lookup among the entries of the store.\<close>

definition saveItem ::
  "jsval \<Rightarrow> jsval \<Rightarrow> int \<Rightarrow> 'd \<Rightarrow> timestamp \<Rightarrow> 'd store world \<Rightarrow> 'd store world" where
  "saveItem lvl ty i d now w =
     (let allData = getAllData w;
          key = mkKey lvl ty i;
          allData' =
            (case map_of allData key of
               Some item \<Rightarrow> AList.update key (item\<lparr>data := d, lastModified := now\<rparr>) allData
             | None \<Rightarrow>
                 AList.update key
                   \<lparr>level = lvl, type = ty, item_id = i, data = d, savedDate = now,
                    lastReviewed = None, reviewCount = 0,
                    nextReviewDate = calculateNextReview now 0, lastModified = now\<rparr>
                   allData)
      in emit ConsoleLog (saveAllData allData' w))"

text \<open>The members of \<^verbatim>\<open>Object.prototype\<close>. The object that \<^verbatim>\<open>JSON.parse\<close> returns (and the
  literal \<^verbatim>\<open>{}\<close>) inherits them, so \<^verbatim>\<open>allData[key]\<close> finds one of them when \<^verbatim>\<open>key\<close> is
  such a name and the store has no entry of its own under it. Each of them is a function or
  an object and therefore truthy.\<close>

definition objectPrototypeNames :: "string list" where
  "objectPrototypeNames =
     [''constructor'', ''hasOwnProperty'', ''isPrototypeOf'', ''propertyIsEnumerable'',
      ''toLocaleString'', ''toString'', ''valueOf'', ''__proto__'',
      ''__defineGetter__'', ''__defineSetter__'', ''__lookupGetter__'', ''__lookupSetter__'']"

text \<open>The value of \<^verbatim>\<open>allData[key]\<close>: an item of the store, a member of
  \<^verbatim>\<open>Object.prototype\<close>, or \<^verbatim>\<open>undefined\<close>. An entry of the store shadows an inherited
  member of the same name.\<close>

datatype 'd property = Own "'d review_item" | Inherited | Undefined

definition getProperty :: "'d store \<Rightarrow> string \<Rightarrow> 'd property" where
  "getProperty allData key =
     (case map_of allData key of
        Some item \<Rightarrow> Own item
      | None \<Rightarrow> if key \<in> set objectPrototypeNames then Inherited else Undefined)"

text \<open>The exception that \<^verbatim>\<open>toISOString\<close> raises on an invalid date.\<close>

datatype error = RangeError

text \<open>\<^verbatim>\<open>reviewItem\<close>. When \<^verbatim>\<open>allData[key]\<close> is an inherited member, the test \<^verbatim>\<open>!allData[key]\<close>
  fails and the method goes on with that member as \<^verbatim>\<open>item\<close>. The assignments to
  \<^verbatim>\<open>item.lastReviewed\<close>, \<^verbatim>\<open>item.reviewCount\<close> and \<^verbatim>\<open>item.nextReviewDate\<close> then change the
  built-in object and not \<^verbatim>\<open>allData\<close>, whose own properties \<^verbatim>\<open>JSON.stringify\<close> writes back
  as they were. The built-in objects are taken as the language defines them, with no
  \<^verbatim>\<open>reviewCount\<close>: \<^verbatim>\<open>item.reviewCount++\<close> makes it \<^verbatim>\<open>NaN\<close>, \<^verbatim>\<open>intervals[NaN]\<close> is
  \<^verbatim>\<open>undefined\<close>, the date becomes invalid and \<^verbatim>\<open>toISOString\<close> raises \<^verbatim>\<open>RangeError\<close> before
  anything is logged or written.\<close>

definition reviewItem ::
  "string \<Rightarrow> bool \<Rightarrow> timestamp \<Rightarrow> 'd store world \<Rightarrow> error + 'd store world" where
  "reviewItem key remembered now w =
     (let allData = getAllData w in
      case getProperty allData key of
        Undefined \<Rightarrow> Inr (emit ConsoleError w)
      | Own item0 \<Rightarrow>
          (let item1 = item0\<lparr>lastReviewed := Some now\<rparr>;
               item2 =
                 (if remembered
                  then (let item' = item1\<lparr>reviewCount := reviewCount item1 + 1\<rparr>
                        in item'\<lparr>nextReviewDate := calculateNextReview now (reviewCount item')\<rparr>)
                  else (let item' = item1\<lparr>reviewCount := 0\<rparr>
                        in item'\<lparr>nextReviewDate := calculateNextReview now 0\<rparr>))
           in Inr (saveAllData (AList.update key item2 allData) (emit ConsoleLog w)))
      | Inherited \<Rightarrow>
          (if remembered then Inl RangeError
           else Inr (saveAllData allData (emit ConsoleLog w))))"

text \<open>\<^verbatim>\<open>deleteItem\<close>. \<^verbatim>\<open>delete allData[key]\<close> removes an own property and does nothing when
  there is none, which is \<open>AList.delete\<close>; the write and the log follow whenever
  \<^verbatim>\<open>allData[key]\<close> was truthy.\<close>

definition deleteItem :: "string \<Rightarrow> 'd store world \<Rightarrow> 'd store world" where
  "deleteItem key w =
     (let allData = getAllData w in
      case getProperty allData key of
        Undefined \<Rightarrow> w
      | _ \<Rightarrow> emit ConsoleLog (saveAllData (AList.delete key allData) w))"

text \<open>\<^verbatim>\<open>addItem\<close> is another name for \<^verbatim>\<open>saveItem\<close>, and \<^verbatim>\<open>removeItem\<close> builds the key and
  deletes it.\<close>

definition addItem ::
  "jsval \<Rightarrow> jsval \<Rightarrow> int \<Rightarrow> 'd \<Rightarrow> timestamp \<Rightarrow> 'd store world \<Rightarrow> 'd store world" where
  "addItem lvl ty i d now w = saveItem lvl ty i d now w"

definition removeItem :: "jsval \<Rightarrow> jsval \<Rightarrow> int \<Rightarrow> 'd store world \<Rightarrow> 'd store world" where
  "removeItem lvl ty i w = (let key = mkKey lvl ty i in deleteItem key w)"

text \<open>\<^verbatim>\<open>resetAll\<close>; the first argument is the user's answer to \<^verbatim>\<open>confirm\<close>.\<close>

definition resetAll :: "bool \<Rightarrow> 'b world \<Rightarrow> bool \<times> 'b world" where
  "resetAll confirmed w =
     (if confirmed then (True, emit ConsoleLog (emit RemoveItem (w\<lparr>storage := None\<rparr>)))
      else (False, w))"

subsection \<open>Queries\<close>

text \<open>The loop of \<^verbatim>\<open>getDueItems\<close> over the entries of the store; the last argument is
  the array \<^verbatim>\<open>dueItems\<close> filled so far. The pushed object \<^verbatim>\<open>{key: key, ...item}\<close> is
  the pair of the key and the item. The members of \<^verbatim>\<open>Object.prototype\<close> are not
  enumerable, so \<^verbatim>\<open>for (const key in allData)\<close> visits the entries of the store only.\<close>

fun dueLoop ::
  "jsval \<Rightarrow> jsval \<Rightarrow> timestamp \<Rightarrow> 'd store \<Rightarrow> 'd store \<Rightarrow> 'd store" where
  "dueLoop lvl ty today [] dueItems = dueItems"
| "dueLoop lvl ty today ((key, item) # rest) dueItems =
     (if truthy lvl \<and> level item \<noteq> lvl then dueLoop lvl ty today rest dueItems
      else if truthy ty \<and> type item \<noteq> ty then dueLoop lvl ty today rest dueItems
      else if nextReviewDate item \<le> today
        then dueLoop lvl ty today rest (dueItems @ [(key, item)])
      else dueLoop lvl ty today rest dueItems)"

text \<open>\<^verbatim>\<open>Array.prototype.sort\<close> with a comparator that subtracts two dates is a stable
  sort on that date; \<open>sort_key\<close> is the stable insertion sort.\<close>

definition getDueItems ::
  "jsval \<Rightarrow> jsval \<Rightarrow> timestamp \<Rightarrow> 'd store world \<Rightarrow> 'd store \<times> 'd store world" where
  "getDueItems level0 type0 today w =
     (let lvl = defaultNull level0;
          ty = defaultNull type0;
          allData = getAllData w;
          dueItems = dueLoop lvl ty today allData []
      in (sort_key (\<lambda>(key, item). nextReviewDate item) dueItems, w))"

fun allLoop :: "jsval \<Rightarrow> jsval \<Rightarrow> 'd store \<Rightarrow> 'd store \<Rightarrow> 'd store" where
  "allLoop lvl ty [] items = items"
| "allLoop lvl ty ((key, item) # rest) items =
     (if truthy lvl \<and> level item \<noteq> lvl then allLoop lvl ty rest items
      else if truthy ty \<and> type item \<noteq> ty then allLoop lvl ty rest items
      else allLoop lvl ty rest (items @ [(key, item)]))"

definition getAllItems ::
  "jsval \<Rightarrow> jsval \<Rightarrow> 'd store world \<Rightarrow> 'd store \<times> 'd store world" where
  "getAllItems level0 type0 w =
     (let lvl = defaultNull level0;
          ty = defaultNull type0;
          allData = getAllData w;
          items = allLoop lvl ty allData []
      in (sort_key (\<lambda>(key, item). - savedDate item) items, w))"

subsection \<open>Statistics\<close>

record level_stats =
  lvl_total :: nat
  lvl_dueToday :: nat
  vocab :: nat
  sentences :: nat

record statistics =
  total :: nat
  dueToday :: nat
  reviewed :: nat
  mastered :: nat
  byLevel :: "(string \<times> level_stats) list"

text \<open>The \<^verbatim>\<open>forEach\<close> over the six level names; the last argument is \<^verbatim>\<open>stats.byLevel\<close>
  as filled so far.\<close>

fun byLevelLoop ::
  "string list \<Rightarrow> timestamp \<Rightarrow> 'd store world \<Rightarrow> (string \<times> level_stats) list
   \<Rightarrow> (string \<times> level_stats) list \<times> 'd store world" where
  "byLevelLoop [] today w acc = (acc, w)"
| "byLevelLoop (lvl # rest) today w acc =
     (let (levelItems, w1) = getAllItems (JStr lvl) JUndefined w;
          (levelDue, w2) = getDueItems (JStr lvl) JUndefined today w1
      in byLevelLoop rest today w2
           (AList.update lvl
              \<lparr>lvl_total = length levelItems,
               lvl_dueToday = length levelDue,
               vocab = length (filter (\<lambda>(key, item). type item = JStr ''vocab'') levelItems),
               sentences =
                 length (filter (\<lambda>(key, item). type item = JStr ''sentence'') levelItems)\<rparr>
              acc))"

definition getStatistics ::
  "jsval \<Rightarrow> timestamp \<Rightarrow> 'd store world \<Rightarrow> statistics \<times> 'd store world" where
  "getStatistics level0 today w =
     (let lvl = defaultNull level0;
          (allItems, w1) = getAllItems lvl JUndefined w;
          (dueItems, w2) = getDueItems lvl JUndefined today w1;
          (perLevel, w3) = byLevelLoop levels today w2 []
      in (\<lparr>total = length allItems,
           dueToday = length dueItems,
           reviewed = length (filter (\<lambda>(key, item). reviewCount item > 0) allItems),
           mastered =
             length (filter (\<lambda>(key, item). reviewCount item \<ge> length intervals - 1) allItems),
           byLevel = perLevel\<rparr>, w3))"

subsection \<open>Import\<close>

text \<open>What \<^verbatim>\<open>await file.text()\<close> followed by \<^verbatim>\<open>JSON.parse(text)\<close> comes to: the read is
  rejected, the text is not JSON, or a value is parsed. \<^verbatim>\<open>importData\<close> never looks into
  the parsed value, so its type is a parameter.\<close>

datatype 'v file_result = ReadError | SyntaxError | Parsed 'v

text \<open>The second argument is the user's answer to \<^verbatim>\<open>confirm\<close>.\<close>

definition importData :: "'v file_result \<Rightarrow> bool \<Rightarrow> 'v world \<Rightarrow> bool \<times> 'v world" where
  "importData file confirmed w =
     (case file of
        Parsed d \<Rightarrow>
          (if confirmed then (True, emit ConsoleLog (saveAllData d w)) else (False, w))
      | _ \<Rightarrow> (False, emit Alert (emit ConsoleError w)))"

text \<open>JSON values, to name parsed values that are not an object.\<close>

datatype json =
  JsonNull | JsonBool bool | JsonNumber int | JsonString string
  | JsonArray "json list" | JsonObject "(string \<times> json) list"

fun isJsonObject :: "json \<Rightarrow> bool" where
  "isJsonObject (JsonObject members) = True"
| "isJsonObject _ = False"

subsection \<open>The report per level, as specified\<close>

text \<open>The sub-report that the specification describes for one level name: the number of
  items of that level, of those that are due, of its vocabulary items and of its sentence
  items, each counted over the whole store. It is compared below with what
  \<open>byLevelLoop\<close> computes.\<close>

definition spec_levelReport :: "string \<Rightarrow> timestamp \<Rightarrow> 'd store \<Rightarrow> level_stats" where
  "spec_levelReport l now s =
     \<lparr>lvl_total = length (filter (\<lambda>(key, item). level item = JStr l) s),
      lvl_dueToday =
        length (filter (\<lambda>(key, item). level item = JStr l \<and> nextReviewDate item \<le> now) s),
      vocab =
        length (filter (\<lambda>(key, item). level item = JStr l \<and> type item = JStr ''vocab'') s),
      sentences =
        length (filter (\<lambda>(key, item). level item = JStr l \<and> type item = JStr ''sentence'') s)\<rparr>"

subsection \<open>An example store\<close>

text \<open>Two items and a world that holds them, on which the theorems are instantiated: a
  vocabulary item of level a1 that was saved at time 1000 and never reviewed, and a
  sentence of level a2 that has been reviewed four times and is due since time 3000.\<close>

abbreviation example_cat :: "string review_item" where
  "example_cat \<equiv>
     \<lparr>level = JStr ''a1'', type = JStr ''vocab'', item_id = 1, data = ''cat'',
      savedDate = 1000, lastReviewed = None, reviewCount = 0,
      nextReviewDate = 86401000, lastModified = 1000\<rparr>"

abbreviation example_hello :: "string review_item" where
  "example_hello \<equiv>
     \<lparr>level = JStr ''a2'', type = JStr ''sentence'', item_id = 2, data = ''hello'',
      savedDate = 2000, lastReviewed = Some 5000, reviewCount = 4,
      nextReviewDate = 3000, lastModified = 5000\<rparr>"

abbreviation example_world :: "string store world" where
  "example_world \<equiv>
     \<lparr>storage = Some [(''a1_vocab_1'', example_cat), (''a2_sentence_2'', example_hello)],
      trace = []\<rparr>"

section \<open>Properties\<close>

subsection \<open>The interval ladder\<close>

lemma ladder_index: "min rc (length intervals - 1) < length intervals"
  by (simp add: intervals_def)

text \<open>
  Claim C1. \<^verbatim>\<open>calculateNextReview(reviewCount)\<close> is a function of the clock reading and
  the count alone (it has no world argument and returns only a date): it returns
  \<open>now\<close> plus \<open>intervals[min(reviewCount, intervals.length - 1)]\<close> days over the ladder
  1, 3, 7, 14, 30, the index being within the ladder; every count of 4 or more adds
  exactly 30 days, and count 0 adds exactly 1 day.
\<close>

theorem calculateNextReview_ladder:
  "intervals = [1, 3, 7, 14, 30]
   \<and> min rc (length intervals - 1) < length intervals
   \<and> calculateNextReview now rc = now + int (intervals ! min rc (length intervals - 1)) * msPerDay
   \<and> (4 \<le> rc \<longrightarrow> calculateNextReview now rc = now + 30 * msPerDay)
   \<and> calculateNextReview now 0 = now + 1 * msPerDay"
proof -
  have plateau: "calculateNextReview now rc = now + 30 * msPerDay" if "4 \<le> rc"
  proof -
    from that have "min rc (length intervals - 1) = 4"
      by (simp add: intervals_def)
    then show ?thesis
      by (simp add: calculateNextReview_def Let_def) (simp add: intervals_def)
  qed
  have first: "calculateNextReview now 0 = now + 1 * msPerDay"
    by (simp add: calculateNextReview_def Let_def intervals_def)
  show ?thesis
    using plateau first ladder_index [of rc]
    by (simp add: calculateNextReview_def Let_def) (simp add: intervals_def)
qed

theorem calculateNextReview_ladder_witness:
  "(4::nat) \<le> 9 \<and> calculateNextReview 1000 9 = 1000 + 30 * 86400000
   \<and> calculateNextReview 1000 0 = 1000 + 86400000
   \<and> calculateNextReview 1000 2 = 1000 + 7 * 86400000"
  using calculateNextReview_ladder [of 9 1000] calculateNextReview_ladder [of 2 1000]
  by (simp add: msPerDay_def intervals_def)

subsection \<open>The queries\<close>

lemma dueLoop_filter:
  "dueLoop lvl ty today xs acc =
     acc @ filter (\<lambda>(key, item). (truthy lvl \<longrightarrow> level item = lvl) \<and> (truthy ty \<longrightarrow> type item = ty)
                      \<and> nextReviewDate item \<le> today) xs"
  by (induction lvl ty today xs acc rule: dueLoop.induct) simp_all

lemma allLoop_filter:
  "allLoop lvl ty xs acc =
     acc @ filter (\<lambda>(key, item). (truthy lvl \<longrightarrow> level item = lvl) \<and> (truthy ty \<longrightarrow> type item = ty)) xs"
  by (induction lvl ty xs acc rule: allLoop.induct) simp_all

lemma defaultNull_filter: "(truthy (defaultNull v) \<longrightarrow> x = defaultNull v) = (truthy v \<longrightarrow> x = v)"
  by (cases v) simp_all

lemma getDueItems_filter:
  "fst (getDueItems lvl ty today w) =
     sort_key (\<lambda>(key, item). nextReviewDate item)
       (filter (\<lambda>(key, item). (truthy lvl \<longrightarrow> level item = lvl) \<and> (truthy ty \<longrightarrow> type item = ty)
                      \<and> nextReviewDate item \<le> today) (getAllData w))"
  by (simp add: getDueItems_def Let_def dueLoop_filter defaultNull_filter)

lemma getAllItems_filter:
  "fst (getAllItems lvl ty w) =
     sort_key (\<lambda>(key, item). - savedDate item)
       (filter (\<lambda>(key, item). (truthy lvl \<longrightarrow> level item = lvl) \<and> (truthy ty \<longrightarrow> type item = ty))
          (getAllData w))"
  by (simp add: getAllItems_def Let_def allLoop_filter defaultNull_filter)

lemma getDueItems_world: "snd (getDueItems lvl ty today w) = w"
  by (simp add: getDueItems_def Let_def)

lemma getAllItems_world: "snd (getAllItems lvl ty w) = w"
  by (simp add: getAllItems_def Let_def)

lemma sorted_desc_sort_key:
  "sorted_wrt (\<lambda>x y. y \<le> x)
     (map (\<lambda>(key, item). savedDate item) (sort_key (\<lambda>(key, item). - savedDate item) xs))"
proof -
  have "sorted (map (\<lambda>(key, item). - savedDate item)
                  (sort_key (\<lambda>(key, item). - savedDate item) xs))"
    by (rule sorted_sort_key)
  then show ?thesis
    by (simp add: sorted_map sorted_wrt_map case_prod_beta)
qed

text \<open>
  Claim C5. For a level and a type that are each omitted (\<^verbatim>\<open>undefined\<close> or \<^verbatim>\<open>null\<close>) or a
  truthy value such as a level name, \<^verbatim>\<open>getDueItems(level, type)\<close> returns exactly the
  entries of the store (with their multiplicity) that match the filters that were given
  and whose \<^verbatim>\<open>nextReviewDate\<close> is at or before \<open>now\<close>, a date equal to \<open>now\<close> included, in
  ascending order of \<^verbatim>\<open>nextReviewDate\<close>; and it leaves the world (the persisted store and
  the trace of effects) as it was.
\<close>

theorem getDueItems_due_sorted:
  assumes "lvl = JNull \<or> lvl = JUndefined \<or> truthy lvl"
    and "ty = JNull \<or> ty = JUndefined \<or> truthy ty"
  shows "mset (fst (getDueItems lvl ty now w)) =
           mset (filter (\<lambda>(key, item).
                    (lvl = JNull \<or> lvl = JUndefined \<or> level item = lvl)
                  \<and> (ty = JNull \<or> ty = JUndefined \<or> type item = ty)
                  \<and> nextReviewDate item \<le> now) (getAllData w))
       \<and> sorted (map (\<lambda>(key, item). nextReviewDate item) (fst (getDueItems lvl ty now w)))
       \<and> snd (getDueItems lvl ty now w) = w"
proof -
  have l: "(truthy lvl \<longrightarrow> x = lvl) = (lvl = JNull \<or> lvl = JUndefined \<or> x = lvl)" for x
    using assms(1) by auto
  have t: "(truthy ty \<longrightarrow> x = ty) = (ty = JNull \<or> ty = JUndefined \<or> x = ty)" for x
    using assms(2) by auto
  have "mset (fst (getDueItems lvl ty now w)) =
           mset (filter (\<lambda>(key, item).
                    (lvl = JNull \<or> lvl = JUndefined \<or> level item = lvl)
                  \<and> (ty = JNull \<or> ty = JUndefined \<or> type item = ty)
                  \<and> nextReviewDate item \<le> now) (getAllData w))"
    by (simp add: getDueItems_filter l t)
  moreover have "sorted (map (\<lambda>(key, item). nextReviewDate item) (fst (getDueItems lvl ty now w)))"
    unfolding getDueItems_filter by (rule sorted_sort_key)
  ultimately show ?thesis
    by (simp add: getDueItems_world)
qed

text \<open>On the example store: only the sentence is due at time 5000; the vocabulary item
  becomes due at exactly 86401000 and is not due one millisecond earlier.\<close>

theorem getDueItems_due_sorted_witness:
  "mset (fst (getDueItems (JStr ''a2'') JUndefined 5000 example_world)) =
     {#(''a2_sentence_2'', example_hello)#}
   \<and> mset (fst (getDueItems JNull JNull 86401000 example_world)) =
     {#(''a1_vocab_1'', example_cat), (''a2_sentence_2'', example_hello)#}
   \<and> mset (fst (getDueItems JNull JNull 86400999 example_world)) =
     {#(''a2_sentence_2'', example_hello)#}"
  using getDueItems_due_sorted [of "JStr ''a2''" JUndefined 5000 example_world]
    getDueItems_due_sorted [of JNull JNull 86401000 example_world]
    getDueItems_due_sorted [of JNull JNull 86400999 example_world]
  by (simp add: getAllData_def)

text \<open>
  Claim C9. For a level and a type that are each omitted or truthy,
  \<^verbatim>\<open>getAllItems(level, type)\<close> returns exactly the entries of the store that match the
  filters that were given, whatever their dates, in descending order of \<^verbatim>\<open>savedDate\<close>,
  and it leaves the world as it was.
\<close>

theorem getAllItems_all_sorted:
  assumes "lvl = JNull \<or> lvl = JUndefined \<or> truthy lvl"
    and "ty = JNull \<or> ty = JUndefined \<or> truthy ty"
  shows "mset (fst (getAllItems lvl ty w)) =
           mset (filter (\<lambda>(key, item).
                    (lvl = JNull \<or> lvl = JUndefined \<or> level item = lvl)
                  \<and> (ty = JNull \<or> ty = JUndefined \<or> type item = ty)) (getAllData w))
       \<and> sorted_wrt (\<lambda>x y. y \<le> x) (map (\<lambda>(key, item). savedDate item) (fst (getAllItems lvl ty w)))
       \<and> snd (getAllItems lvl ty w) = w"
proof -
  have l: "(truthy lvl \<longrightarrow> x = lvl) = (lvl = JNull \<or> lvl = JUndefined \<or> x = lvl)" for x
    using assms(1) by auto
  have t: "(truthy ty \<longrightarrow> x = ty) = (ty = JNull \<or> ty = JUndefined \<or> x = ty)" for x
    using assms(2) by auto
  have "mset (fst (getAllItems lvl ty w)) =
           mset (filter (\<lambda>(key, item).
                    (lvl = JNull \<or> lvl = JUndefined \<or> level item = lvl)
                  \<and> (ty = JNull \<or> ty = JUndefined \<or> type item = ty)) (getAllData w))"
    by (simp add: getAllItems_filter l t)
  moreover have "sorted_wrt (\<lambda>x y. y \<le> x) (map (\<lambda>(key, item). savedDate item) (fst (getAllItems lvl ty w)))"
    unfolding getAllItems_filter
    by (rule sorted_desc_sort_key)
  ultimately show ?thesis
    by (simp add: getAllItems_world)
qed

text \<open>On the example store, with a type filter and with no filter.\<close>

theorem getAllItems_all_sorted_witness:
  "mset (fst (getAllItems JUndefined (JStr ''vocab'') example_world)) =
     {#(''a1_vocab_1'', example_cat)#}
   \<and> sorted_wrt (\<lambda>x y. y \<le> x)
        (map (\<lambda>(key, item). savedDate item) (fst (getAllItems JNull JNull example_world)))
   \<and> mset (fst (getAllItems JNull JNull example_world)) =
     {#(''a1_vocab_1'', example_cat), (''a2_sentence_2'', example_hello)#}"
  using getAllItems_all_sorted [of JUndefined "JStr ''vocab''" example_world]
    getAllItems_all_sorted [of JNull JNull example_world]
  by (simp add: getAllData_def)

lemma getDueItems_falsy_level: "\<not> truthy lvl \<Longrightarrow> getDueItems lvl ty now w = getDueItems JNull ty now w"
  by (rule prod_eqI) (simp_all add: getDueItems_filter getDueItems_world)

lemma getDueItems_falsy_type: "\<not> truthy ty \<Longrightarrow> getDueItems lvl ty now w = getDueItems lvl JNull now w"
  by (rule prod_eqI) (simp_all add: getDueItems_filter getDueItems_world)

lemma getAllItems_falsy_level: "\<not> truthy lvl \<Longrightarrow> getAllItems lvl ty w = getAllItems JNull ty w"
  by (rule prod_eqI) (simp_all add: getAllItems_filter getAllItems_world)

lemma getAllItems_falsy_type: "\<not> truthy ty \<Longrightarrow> getAllItems lvl ty w = getAllItems lvl JNull w"
  by (rule prod_eqI) (simp_all add: getAllItems_filter getAllItems_world)

text \<open>
  Claim C10. In \<^verbatim>\<open>getDueItems\<close> and \<^verbatim>\<open>getAllItems\<close> a filter argument is tested by
  truthiness. \<^verbatim>\<open>null\<close>, \<^verbatim>\<open>undefined\<close>, the empty string and 0 are falsy; a falsy level
  (or type) gives the same result as \<^verbatim>\<open>null\<close>, that is, no filter on the level (or type),
  and with both falsy \<^verbatim>\<open>getAllItems\<close> returns every entry of the store. In general the
  result consists of the entries that equal each truthy argument exactly.
\<close>

theorem filters_tested_by_truthiness:
  "\<not> truthy JNull \<and> \<not> truthy JUndefined \<and> \<not> truthy (JStr '''') \<and> \<not> truthy (JNum 0)
   \<and> (\<not> truthy lvl \<longrightarrow>
          getDueItems lvl ty now w = getDueItems JNull ty now w
        \<and> getAllItems lvl ty w = getAllItems JNull ty w)
   \<and> (\<not> truthy ty \<longrightarrow>
          getDueItems lvl ty now w = getDueItems lvl JNull now w
        \<and> getAllItems lvl ty w = getAllItems lvl JNull w)
   \<and> (\<not> truthy lvl \<and> \<not> truthy ty \<longrightarrow> mset (fst (getAllItems lvl ty w)) = mset (getAllData w))
   \<and> mset (fst (getDueItems lvl ty now w)) =
        mset (filter (\<lambda>(key, item).
                 (truthy lvl \<longrightarrow> level item = lvl) \<and> (truthy ty \<longrightarrow> type item = ty)
               \<and> nextReviewDate item \<le> now) (getAllData w))
   \<and> mset (fst (getAllItems lvl ty w)) =
        mset (filter (\<lambda>(key, item).
                 (truthy lvl \<longrightarrow> level item = lvl) \<and> (truthy ty \<longrightarrow> type item = ty))
               (getAllData w))"
proof -
  have due: "mset (fst (getDueItems lvl ty now w)) =
        mset (filter (\<lambda>(key, item).
                 (truthy lvl \<longrightarrow> level item = lvl) \<and> (truthy ty \<longrightarrow> type item = ty)
               \<and> nextReviewDate item \<le> now) (getAllData w))"
    by (simp add: getDueItems_filter)
  have all: "mset (fst (getAllItems lvl ty w)) =
        mset (filter (\<lambda>(key, item).
                 (truthy lvl \<longrightarrow> level item = lvl) \<and> (truthy ty \<longrightarrow> type item = ty))
               (getAllData w))"
    by (simp add: getAllItems_filter)
  have none: "mset (fst (getAllItems lvl ty w)) = mset (getAllData w)"
    if "\<not> truthy lvl" "\<not> truthy ty"
    using that by (simp add: getAllItems_filter)
  show ?thesis
    using due all none
      getDueItems_falsy_level [of lvl ty now w] getDueItems_falsy_type [of ty lvl now w]
      getAllItems_falsy_level [of lvl ty w] getAllItems_falsy_type [of ty lvl w]
    by simp
qed

text \<open>On the example store: level 0 behaves as \<^verbatim>\<open>null\<close>, an empty level with type 0 returns
  both items, and a truthy level with an empty type filters by the level alone.\<close>

theorem filters_tested_by_truthiness_witness:
  "getDueItems (JNum 0) JUndefined 5000 example_world =
     getDueItems JNull JUndefined 5000 example_world
   \<and> mset (fst (getAllItems (JStr '''') (JNum 0) example_world)) =
       {#(''a1_vocab_1'', example_cat), (''a2_sentence_2'', example_hello)#}
   \<and> fst (getDueItems (JStr ''a1'') (JStr '''') 86401000 example_world) =
       [(''a1_vocab_1'', example_cat)]"
proof -
  have "getDueItems (JNum 0) JUndefined 5000 example_world =
          getDueItems JNull JUndefined 5000 example_world"
    using filters_tested_by_truthiness [of "JNum 0" JUndefined 5000 example_world] by simp
  moreover have "mset (fst (getAllItems (JStr '''') (JNum 0) example_world)) =
       {#(''a1_vocab_1'', example_cat), (''a2_sentence_2'', example_hello)#}"
    using filters_tested_by_truthiness [of "JStr ''''" "JNum 0" 5000 example_world]
    by (simp (no_asm_use) add: getAllData_def) blast
  moreover have "fst (getDueItems (JStr ''a1'') (JStr '''') 86401000 example_world) =
       [(''a1_vocab_1'', example_cat)]"
    using filters_tested_by_truthiness [of "JStr ''a1''" "JStr ''''" 86401000 example_world]
    by (simp (no_asm_use) add: getAllData_def) blast
  ultimately show ?thesis
    by simp
qed

subsection \<open>Saving, reviewing and deleting\<close>

lemma update_absent: "map_of al k = None \<Longrightarrow> AList.update k v al = al @ [(k, v)]"
  by (induction al) (auto split: if_splits)

lemma getAllData_saveAllData: "getAllData (saveAllData d w) = d"
  by (simp add: getAllData_def saveAllData_def emit_def)

lemma storage_emit: "storage (emit e w) = storage w"
  by (simp add: emit_def)

lemma getAllData_emit: "getAllData (emit e w) = getAllData w"
  by (simp add: getAllData_def emit_def)

lemma trace_emit: "trace (emit e w) = trace w @ [e]"
  by (simp add: emit_def)

lemma storage_saveAllData: "storage (saveAllData d w) = Some d"
  by (simp add: saveAllData_def emit_def)

lemma trace_saveAllData: "trace (saveAllData d w) = trace w @ [SetItem]"
  by (simp add: saveAllData_def emit_def)

lemmas world_simps =
  getAllData_saveAllData storage_emit getAllData_emit trace_emit storage_saveAllData trace_saveAllData

lemma mkKey_example: "mkKey (JStr ''a1'') (JStr ''vocab'') 1 = ''a1_vocab_1''"
  by (simp add: mkKey_def string_of_int_def digit_char_def)

lemma mkKey_example3: "mkKey (JStr ''b1'') (JStr ''vocab'') 37 = ''b1_vocab_37''"
  by (simp add: mkKey_def string_of_int_def digit_char_def)

text \<open>
  Claim C3. When the composite key of (level, type, id) is already in the store,
  \<^verbatim>\<open>saveItem(level, type, id, data)\<close> replaces the payload of that item and sets its
  \<^verbatim>\<open>lastModified\<close> to \<open>now\<close>; its \<^verbatim>\<open>reviewCount\<close>, \<^verbatim>\<open>nextReviewDate\<close>, \<^verbatim>\<open>lastReviewed\<close> and
  \<^verbatim>\<open>savedDate\<close> are as before, every other key maps to what it mapped to, and the keys
  are the same in the same order.
\<close>

theorem saveItem_existing:
  assumes "map_of (getAllData w) (mkKey lvl ty i) = Some item"
  shows "map_of (getAllData (saveItem lvl ty i d now w)) (mkKey lvl ty i)
           = Some (item\<lparr>data := d, lastModified := now\<rparr>)
       \<and> reviewCount (item\<lparr>data := d, lastModified := now\<rparr>) = reviewCount item
       \<and> nextReviewDate (item\<lparr>data := d, lastModified := now\<rparr>) = nextReviewDate item
       \<and> lastReviewed (item\<lparr>data := d, lastModified := now\<rparr>) = lastReviewed item
       \<and> savedDate (item\<lparr>data := d, lastModified := now\<rparr>) = savedDate item
       \<and> (\<forall>k. k \<noteq> mkKey lvl ty i \<longrightarrow>
             map_of (getAllData (saveItem lvl ty i d now w)) k = map_of (getAllData w) k)
       \<and> map fst (getAllData (saveItem lvl ty i d now w)) = map fst (getAllData w)"
proof -
  let ?key = "mkKey lvl ty i"
  have eq: "getAllData (saveItem lvl ty i d now w) =
              AList.update ?key (item\<lparr>data := d, lastModified := now\<rparr>) (getAllData w)"
    using assms by (simp add: saveItem_def Let_def world_simps)
  have "?key \<in> fst ` set (getAllData w)"
    using assms by (auto dest: map_of_SomeD intro: rev_image_eqI)
  then have keys: "map fst (getAllData (saveItem lvl ty i d now w)) = map fst (getAllData w)"
    by (simp add: eq update_keys)
  show ?thesis
    by (simp add: eq update_conv' keys [unfolded eq])
qed

text \<open>On the example store: saving a new payload for the vocabulary item.\<close>

theorem saveItem_existing_witness:
  "map_of (getAllData (saveItem (JStr ''a1'') (JStr ''vocab'') 1 ''kitten'' 9000 example_world))
     ''a1_vocab_1''
     = Some (example_cat\<lparr>data := ''kitten'', lastModified := 9000\<rparr>)
   \<and> map_of (getAllData (saveItem (JStr ''a1'') (JStr ''vocab'') 1 ''kitten'' 9000 example_world))
     ''a2_sentence_2'' = Some example_hello"
  using saveItem_existing [of example_world "JStr ''a1''" "JStr ''vocab''" 1 example_cat "''kitten''" 9000]
  by (simp add: getAllData_def mkKey_example)

text \<open>
  Claim C4. When the composite key of (level, type, id) is not in the store,
  \<^verbatim>\<open>saveItem(level, type, id, data)\<close> adds under that key a new item with \<^verbatim>\<open>reviewCount\<close> 0,
  \<^verbatim>\<open>nextReviewDate\<close> equal to \<open>now\<close> plus \<open>intervals[0]\<close> days, which is one day,
  \<^verbatim>\<open>lastReviewed\<close> null, and \<^verbatim>\<open>savedDate\<close> and \<^verbatim>\<open>lastModified\<close> equal to \<open>now\<close>; the items
  that were there are unchanged, and the whole new store is written to storage.
\<close>

theorem saveItem_new:
  assumes "map_of (getAllData w) (mkKey lvl ty i) = None"
  shows "getAllData (saveItem lvl ty i d now w) =
           getAllData w @
             [(mkKey lvl ty i,
               \<lparr>level = lvl, type = ty, item_id = i, data = d, savedDate = now,
                lastReviewed = None, reviewCount = 0,
                nextReviewDate = now + int (intervals ! 0) * msPerDay, lastModified = now\<rparr>)]
       \<and> intervals ! 0 = 1
       \<and> storage (saveItem lvl ty i d now w) = Some (getAllData (saveItem lvl ty i d now w))
       \<and> trace (saveItem lvl ty i d now w) = trace w @ [SetItem, ConsoleLog]"
proof -
  have first: "calculateNextReview now 0 = now + int (intervals ! 0) * msPerDay"
    by (simp add: calculateNextReview_def Let_def)
  show ?thesis
    using assms
    by (simp add: saveItem_def Let_def world_simps update_absent first) (simp add: intervals_def)
qed

text \<open>On the example store: saving a third item.\<close>

theorem saveItem_new_witness:
  "getAllData (saveItem (JStr ''b1'') (JStr ''vocab'') 37 ''dog'' 9000 example_world) =
     [(''a1_vocab_1'', example_cat), (''a2_sentence_2'', example_hello),
      (''b1_vocab_37'',
       \<lparr>level = JStr ''b1'', type = JStr ''vocab'', item_id = 37, data = ''dog'', savedDate = 9000,
        lastReviewed = None, reviewCount = 0, nextReviewDate = 86409000, lastModified = 9000\<rparr>)]
   \<and> trace (saveItem (JStr ''b1'') (JStr ''vocab'') 37 ''dog'' 9000 example_world) =
       [SetItem, ConsoleLog]"
  using saveItem_new [of example_world "JStr ''b1''" "JStr ''vocab''" 37 "''dog''" 9000]
  by (simp add: getAllData_def mkKey_example3 msPerDay_def)

lemma getProperty_own: "map_of allData key = Some item \<Longrightarrow> getProperty allData key = Own item"
  by (simp add: getProperty_def)

lemma getProperty_undefined:
  "map_of allData key = None \<Longrightarrow> key \<notin> set objectPrototypeNames \<Longrightarrow>
   getProperty allData key = Undefined"
  by (simp add: getProperty_def)

lemma getProperty_inherited:
  "map_of allData key = None \<Longrightarrow> key \<in> set objectPrototypeNames \<Longrightarrow>
   getProperty allData key = Inherited"
  by (simp add: getProperty_def)

text \<open>A composite key ends in a decimal digit, and no member of \<^verbatim>\<open>Object.prototype\<close> has
  such a name.\<close>

lemma digit_char_digit: "n < 10 \<Longrightarrow> digit_char n \<in> set ''0123456789''"
  unfolding digit_char_def by (rule nth_mem) simp

lemma string_of_nat_last:
  "string_of_nat n \<noteq> [] \<and> last (string_of_nat n) \<in> set ''0123456789''"
proof (cases "n < 10")
  case True
  then show ?thesis
    using digit_char_digit [of n] by (subst (1 2) string_of_nat.simps) simp
next
  case False
  then show ?thesis
    using digit_char_digit [of "n mod 10"] by (subst (1 2) string_of_nat.simps) simp
qed

lemma string_of_int_last:
  "string_of_int i \<noteq> [] \<and> last (string_of_int i) \<in> set ''0123456789''"
  using string_of_nat_last [of "nat i"] string_of_nat_last [of "nat (- i)"]
  by (simp add: string_of_int_def)

lemma mkKey_last: "last (mkKey lvl ty i) \<in> set ''0123456789''"
  using string_of_int_last [of i] by (simp add: mkKey_def)

lemma objectPrototypeNames_last:
  "key \<in> set objectPrototypeNames \<Longrightarrow> last key \<notin> set ''0123456789''"
  by (auto simp add: objectPrototypeNames_def)

lemma mkKey_not_inherited: "mkKey lvl ty i \<notin> set objectPrototypeNames"
  using mkKey_last [of lvl ty i] objectPrototypeNames_last [of "mkKey lvl ty i"] by blast

text \<open>
  Claim C2. When the key is in the store, \<^verbatim>\<open>reviewItem(key, remembered)\<close> returns
  normally and sets \<^verbatim>\<open>lastReviewed\<close> of that item to \<open>now\<close>; if \<^verbatim>\<open>remembered\<close> holds it adds
  exactly 1 to \<^verbatim>\<open>reviewCount\<close> and computes \<^verbatim>\<open>nextReviewDate\<close> from the new count;
  otherwise it sets \<^verbatim>\<open>reviewCount\<close> to 0 and computes \<^verbatim>\<open>nextReviewDate\<close> from 0, which is
  \<open>now\<close> plus one day whatever the count was. The other items are unchanged and the
  whole store is written to storage afterwards.
\<close>

theorem reviewItem_present:
  assumes "map_of (getAllData w) key = Some item"
  shows "\<exists>w'. reviewItem key remembered now w = Inr w'
       \<and> getAllData w' =
           AList.update key
             (item\<lparr>lastReviewed := Some now,
                   reviewCount := (if remembered then reviewCount item + 1 else 0),
                   nextReviewDate :=
                     calculateNextReview now (if remembered then reviewCount item + 1 else 0)\<rparr>)
             (getAllData w)
       \<and> map_of (getAllData w') key =
           Some (item\<lparr>lastReviewed := Some now,
                   reviewCount := (if remembered then reviewCount item + 1 else 0),
                   nextReviewDate :=
                     calculateNextReview now (if remembered then reviewCount item + 1 else 0)\<rparr>)
       \<and> calculateNextReview now 0 = now + 1 * msPerDay
       \<and> (\<forall>k. k \<noteq> key \<longrightarrow> map_of (getAllData w') k = map_of (getAllData w) k)
       \<and> storage w' = Some (getAllData w')
       \<and> trace w' = trace w @ [ConsoleLog, SetItem]"
proof -
  let ?item = "item\<lparr>lastReviewed := Some now,
                   reviewCount := (if remembered then reviewCount item + 1 else 0),
                   nextReviewDate :=
                     calculateNextReview now (if remembered then reviewCount item + 1 else 0)\<rparr>"
  let ?w = "saveAllData (AList.update key ?item (getAllData w)) (emit ConsoleLog w)"
  have first: "calculateNextReview now 0 = now + 1 * msPerDay"
    by (simp add: calculateNextReview_def Let_def intervals_def)
  have ret: "reviewItem key remembered now w = Inr ?w"
    using assms by (simp add: reviewItem_def Let_def getProperty_own)
  have eq: "getAllData ?w = AList.update key ?item (getAllData w)"
    by (simp only: world_simps)
  have st: "storage ?w = Some (getAllData ?w)"
    by (simp only: world_simps)
  have tr: "trace ?w = trace w @ [ConsoleLog, SetItem]"
    by (simp add: world_simps)
  have look: "map_of (getAllData ?w) key = Some ?item"
    by (simp only: eq update_conv') simp
  have others: "\<forall>k. k \<noteq> key \<longrightarrow> map_of (getAllData ?w) k = map_of (getAllData w) k"
    by (simp only: eq update_conv') simp
  from ret eq look first others st tr show ?thesis
    by blast
qed

text \<open>On the example store: a remembered first review moves to the 3-day rung; forgetting
  the sentence after four reviews goes back to one day.\<close>

theorem reviewItem_present_witness:
  "(\<exists>w'. reviewItem ''a1_vocab_1'' True 9000 example_world = Inr w'
      \<and> map_of (getAllData w') ''a1_vocab_1'' =
          Some (example_cat\<lparr>lastReviewed := Some 9000, reviewCount := 1,
                            nextReviewDate := 9000 + 3 * 86400000\<rparr>)
      \<and> trace w' = [ConsoleLog, SetItem])
   \<and> (\<exists>w'. reviewItem ''a2_sentence_2'' False 9000 example_world = Inr w'
      \<and> map_of (getAllData w') ''a2_sentence_2'' =
          Some (example_hello\<lparr>lastReviewed := Some 9000, reviewCount := 0,
                            nextReviewDate := 9000 + 86400000\<rparr>)
      \<and> trace w' = [ConsoleLog, SetItem])"
proof -
  have cat: "map_of (getAllData example_world) ''a1_vocab_1'' = Some example_cat"
    and hello: "map_of (getAllData example_world) ''a2_sentence_2'' = Some example_hello"
    by (simp_all add: getAllData_def)
  from reviewItem_present [OF cat, of True 9000] obtain w1 where
    "reviewItem ''a1_vocab_1'' True 9000 example_world = Inr w1"
    "map_of (getAllData w1) ''a1_vocab_1'' =
       Some (example_cat\<lparr>lastReviewed := Some 9000, reviewCount := 1,
                         nextReviewDate := 9000 + 3 * 86400000\<rparr>)"
    "trace w1 = [ConsoleLog, SetItem]"
    by (auto simp add: calculateNextReview_def intervals_def msPerDay_def)
  moreover from reviewItem_present [OF hello, of False 9000] obtain w2 where
    "reviewItem ''a2_sentence_2'' False 9000 example_world = Inr w2"
    "map_of (getAllData w2) ''a2_sentence_2'' =
       Some (example_hello\<lparr>lastReviewed := Some 9000, reviewCount := 0,
                         nextReviewDate := 9000 + 86400000\<rparr>)"
    "trace w2 = [ConsoleLog, SetItem]"
    by (auto simp add: calculateNextReview_def intervals_def msPerDay_def)
  ultimately show ?thesis
    by blast
qed

lemma deleteItem_present:
  "map_of (getAllData w) k = Some item \<Longrightarrow>
   deleteItem k w = emit ConsoleLog (saveAllData (AList.delete k (getAllData w)) w)"
  by (simp add: deleteItem_def Let_def getProperty_own)

lemma deleteItem_absent:
  "map_of (getAllData w) k = None \<Longrightarrow> k \<notin> set objectPrototypeNames \<Longrightarrow> deleteItem k w = w"
  by (simp add: deleteItem_def Let_def getProperty_undefined)

text \<open>What the two methods do with a key that is not in the store and names a member of
  \<^verbatim>\<open>Object.prototype\<close>, such as \<^verbatim>\<open>constructor\<close> or \<^verbatim>\<open>toString\<close>: the test for a missing key
  does not catch it. \<^verbatim>\<open>reviewItem\<close> raises when \<^verbatim>\<open>remembered\<close> holds and otherwise logs
  success and writes the store back; \<^verbatim>\<open>deleteItem\<close> writes the store back and logs a
  deletion although nothing was removed.\<close>

lemma inherited_key_found:
  assumes "map_of (getAllData w) key = None" and "key \<in> set objectPrototypeNames"
  shows "reviewItem key True now w = Inl RangeError"
    and "reviewItem key False now w = Inr (saveAllData (getAllData w) (emit ConsoleLog w))"
    and "deleteItem key w = emit ConsoleLog (saveAllData (getAllData w) w)"
proof -
  have "key \<notin> fst ` set (getAllData w)"
    using assms(1) by (simp add: map_of_eq_None_iff)
  then have "AList.delete key (getAllData w) = getAllData w"
    by (rule delete_id)
  then show "deleteItem key w = emit ConsoleLog (saveAllData (getAllData w) w)"
    using assms by (simp add: deleteItem_def Let_def getProperty_inherited)
  show "reviewItem key True now w = Inl RangeError"
    using assms by (simp add: reviewItem_def Let_def getProperty_inherited)
  show "reviewItem key False now w = Inr (saveAllData (getAllData w) (emit ConsoleLog w))"
    using assms by (simp add: reviewItem_def Let_def getProperty_inherited)
qed

text \<open>
  Claim C8, as amended. Let the key be absent from the store and not the name of a member
  of \<^verbatim>\<open>Object.prototype\<close>; every composite key built from a level, a type and an id is
  such a key when it is absent. Then \<^verbatim>\<open>reviewItem(key, remembered)\<close> returns normally, reports
  the condition with \<^verbatim>\<open>console.error\<close> and does nothing else: storage is unchanged and
  nothing is written. \<^verbatim>\<open>deleteItem(key)\<close> does nothing at all: it writes nothing and logs
  nothing. Whenever \<^verbatim>\<open>deleteItem\<close> changes the world for a key that does not name such a
  member (so whenever it writes), the key was in the store and is removed by the call.
\<close>

theorem missing_key_noop:
  assumes "map_of (getAllData w) key = None" and "key \<notin> set objectPrototypeNames"
  shows "reviewItem key remembered now w = Inr (emit ConsoleError w)
       \<and> storage (emit ConsoleError w) = storage w
       \<and> trace (emit ConsoleError w) = trace w @ [ConsoleError]
       \<and> deleteItem key w = w
       \<and> (\<forall>k. k \<notin> set objectPrototypeNames \<and> deleteItem k w \<noteq> w \<longrightarrow>
             map_of (getAllData w) k \<noteq> None
           \<and> getAllData (deleteItem k w) = AList.delete k (getAllData w)
           \<and> map_of (getAllData (deleteItem k w)) k = None
           \<and> trace (deleteItem k w) = trace w @ [SetItem, ConsoleLog])
       \<and> mkKey lvl ty i \<notin> set objectPrototypeNames"
proof -
  have del: "map_of (getAllData w) k \<noteq> None
           \<and> getAllData (deleteItem k w) = AList.delete k (getAllData w)
           \<and> map_of (getAllData (deleteItem k w)) k = None
           \<and> trace (deleteItem k w) = trace w @ [SetItem, ConsoleLog]"
    if "k \<notin> set objectPrototypeNames" "deleteItem k w \<noteq> w" for k
  proof (cases "map_of (getAllData w) k")
    case None
    with that show ?thesis
      by (simp add: deleteItem_absent)
  next
    case (Some item)
    then show ?thesis
      by (simp add: deleteItem_present world_simps delete_conv')
  qed
  then have removal: "\<forall>k. k \<notin> set objectPrototypeNames \<and> deleteItem k w \<noteq> w \<longrightarrow>
             map_of (getAllData w) k \<noteq> None
           \<and> getAllData (deleteItem k w) = AList.delete k (getAllData w)
           \<and> map_of (getAllData (deleteItem k w)) k = None
           \<and> trace (deleteItem k w) = trace w @ [SetItem, ConsoleLog]"
    by blast
  have review: "reviewItem key remembered now w = Inr (emit ConsoleError w)"
    using assms by (simp add: reviewItem_def Let_def getProperty_undefined)
  have kept: "storage (emit ConsoleError w) = storage w"
    and logged: "trace (emit ConsoleError w) = trace w @ [ConsoleError]"
    by (simp_all add: world_simps)
  have "deleteItem key w = w"
    using assms by (rule deleteItem_absent)
  with review kept logged removal mkKey_not_inherited [of lvl ty i] show ?thesis
    by blast
qed

text \<open>On the example store, with a composite key that is not in it.\<close>

theorem missing_key_noop_witness:
  "reviewItem ''c2_vocab_9'' True 9000 example_world =
     Inr \<lparr>storage = Some [(''a1_vocab_1'', example_cat), (''a2_sentence_2'', example_hello)],
          trace = [ConsoleError]\<rparr>
   \<and> deleteItem ''c2_vocab_9'' example_world = example_world"
proof -
  have absent: "map_of (getAllData example_world) ''c2_vocab_9'' = None"
    by (simp add: getAllData_def)
  have plain: "''c2_vocab_9'' \<notin> set objectPrototypeNames"
    by (simp add: objectPrototypeNames_def)
  from missing_key_noop [OF absent plain, of True 9000]
  have "reviewItem ''c2_vocab_9'' True 9000 example_world = Inr (emit ConsoleError example_world)"
    and "deleteItem ''c2_vocab_9'' example_world = example_world"
    by blast+
  then show ?thesis
    by (simp add: emit_def)
qed

text \<open>Claim C8 as stated fails in two ways. It asks that the condition be logged by both
  methods: for a composite key that is not in the example store, the trace after
  \<^verbatim>\<open>deleteItem\<close> is still empty, so nothing has been logged. And it speaks of every absent
  key: \<^verbatim>\<open>constructor\<close> and \<^verbatim>\<open>toString\<close> are not in the example store either, yet
  \<^verbatim>\<open>reviewItem\<close> raises for the one and \<^verbatim>\<open>deleteItem\<close> writes and logs for the other.\<close>

theorem missing_key_counterexample:
  "map_of (getAllData example_world) ''c2_vocab_9'' = None
   \<and> trace (deleteItem ''c2_vocab_9'' example_world) = []
   \<and> map_of (getAllData example_world) ''constructor'' = None
   \<and> reviewItem ''constructor'' True 9000 example_world = Inl RangeError
   \<and> map_of (getAllData example_world) ''toString'' = None
   \<and> trace (deleteItem ''toString'' example_world) = [SetItem, ConsoleLog]"
  by (simp add: reviewItem_def deleteItem_def Let_def getProperty_def getAllData_def
      objectPrototypeNames_def saveAllData_def emit_def)

subsection \<open>Statistics\<close>

lemma length_filter_sort_key: "length (filter P (sort_key f xs)) = length (filter P xs)"
  by (simp add: filter_sort)

lemma filter_filter_entries:
  "filter (\<lambda>(key, item). Q item) (filter (\<lambda>(key, item). P item) xs) =
     filter (\<lambda>(key, item). P item \<and> Q item) xs"
  by (induction xs) auto

lemma getAllItems_count:
  "length (filter (\<lambda>(key, item). Q item) (fst (getAllItems lvl ty w))) =
     length (filter (\<lambda>(key, item).
                ((truthy lvl \<longrightarrow> level item = lvl) \<and> (truthy ty \<longrightarrow> type item = ty)) \<and> Q item)
              (getAllData w))"
  by (simp only: getAllItems_filter length_filter_sort_key filter_filter_entries)

lemma getAllItems_length:
  "length (fst (getAllItems lvl ty w)) =
     length (filter (\<lambda>(key, item).
                (truthy lvl \<longrightarrow> level item = lvl) \<and> (truthy ty \<longrightarrow> type item = ty))
              (getAllData w))"
  by (simp add: getAllItems_filter)

lemma getDueItems_length:
  "length (fst (getDueItems lvl ty today w)) =
     length (filter (\<lambda>(key, item).
                (truthy lvl \<longrightarrow> level item = lvl) \<and> (truthy ty \<longrightarrow> type item = ty)
                \<and> nextReviewDate item \<le> today)
              (getAllData w))"
  by (simp add: getDueItems_filter)

lemma byLevelLoop_step:
  assumes "l \<noteq> []"
  shows "byLevelLoop (l # ls) today w acc =
           byLevelLoop ls today w (AList.update l (spec_levelReport l today (getAllData w)) acc)"
proof -
  have a: "getAllItems (JStr l) JUndefined w = (fst (getAllItems (JStr l) JUndefined w), w)"
    by (metis getAllItems_world prod.collapse)
  have d: "getDueItems (JStr l) JUndefined today w = (fst (getDueItems (JStr l) JUndefined today w), w)"
    by (metis getDueItems_world prod.collapse)
  have r: "\<lparr>lvl_total = length (fst (getAllItems (JStr l) JUndefined w)),
            lvl_dueToday = length (fst (getDueItems (JStr l) JUndefined today w)),
            vocab = length (filter (\<lambda>(key, item). type item = JStr ''vocab'')
                       (fst (getAllItems (JStr l) JUndefined w))),
            sentences = length (filter (\<lambda>(key, item). type item = JStr ''sentence'')
                       (fst (getAllItems (JStr l) JUndefined w)))\<rparr>
           = spec_levelReport l today (getAllData w)"
    using assms
    by (simp add: spec_levelReport_def getAllItems_length getDueItems_length getAllItems_count)
  show ?thesis
    apply (subst byLevelLoop.simps)
    apply (subst a)
    apply (simp only: Let_def prod.case)
    apply (subst d)
    apply (simp only: Let_def prod.case r)
    done
qed

lemma byLevelLoop_fold:
  "\<forall>l \<in> set ls. l \<noteq> [] \<Longrightarrow>
   byLevelLoop ls today w acc =
     (fold (\<lambda>l. AList.update l (spec_levelReport l today (getAllData w))) ls acc, w)"
  by (induction ls arbitrary: acc) (simp_all add: byLevelLoop_step del: byLevelLoop.simps(2))

lemma byLevelLoop_levels:
  "byLevelLoop levels today w [] =
     (map (\<lambda>l. (l, spec_levelReport l today (getAllData w))) levels, w)"
proof -
  have "\<forall>l \<in> set levels. l \<noteq> []"
    by (simp add: levels_def)
  then show ?thesis
    by (simp add: byLevelLoop_fold) (simp add: levels_def)
qed

lemma getStatistics_eq:
  "getStatistics lvl today w =
     (\<lparr>total = length (fst (getAllItems (defaultNull lvl) JUndefined w)),
       dueToday = length (fst (getDueItems (defaultNull lvl) JUndefined today w)),
       reviewed = length (filter (\<lambda>(key, item). reviewCount item > 0)
                    (fst (getAllItems (defaultNull lvl) JUndefined w))),
       mastered = length (filter (\<lambda>(key, item). reviewCount item \<ge> length intervals - 1)
                    (fst (getAllItems (defaultNull lvl) JUndefined w))),
       byLevel = map (\<lambda>l. (l, spec_levelReport l today (getAllData w))) levels\<rparr>, w)"
  by (simp add: getStatistics_def Let_def case_prod_beta getAllItems_world getDueItems_world
      byLevelLoop_levels)

text \<open>
  Claim C7. For every level argument, \<open>byLevel\<close> of \<^verbatim>\<open>getStatistics(level)\<close> has an entry
  for each of the six level names a1, a2, b1, b2, c1, c2, in this order, and the entry of
  a level name is the specified sub-report (total, due, vocabulary and sentence counts)
  over the whole store: it is the same for any two level arguments. The outer \<open>total\<close>,
  \<open>dueToday\<close>, \<open>reviewed\<close> and \<open>mastered\<close> count only the items of the level argument
  when it is truthy, and all items otherwise. The world is left as it was.
\<close>

theorem getStatistics_byLevel:
  "byLevel (fst (getStatistics lvl now w)) =
     map (\<lambda>l. (l, spec_levelReport l now (getAllData w))) [''a1'', ''a2'', ''b1'', ''b2'', ''c1'', ''c2'']
   \<and> byLevel (fst (getStatistics lvl now w)) = byLevel (fst (getStatistics lvl' now w))
   \<and> total (fst (getStatistics lvl now w)) =
       length (filter (\<lambda>(key, item). truthy lvl \<longrightarrow> level item = lvl) (getAllData w))
   \<and> dueToday (fst (getStatistics lvl now w)) =
       length (filter (\<lambda>(key, item). (truthy lvl \<longrightarrow> level item = lvl) \<and> nextReviewDate item \<le> now)
         (getAllData w))
   \<and> reviewed (fst (getStatistics lvl now w)) =
       length (filter (\<lambda>(key, item). (truthy lvl \<longrightarrow> level item = lvl) \<and> 0 < reviewCount item)
         (getAllData w))
   \<and> mastered (fst (getStatistics lvl now w)) =
       length (filter (\<lambda>(key, item). (truthy lvl \<longrightarrow> level item = lvl) \<and> 4 \<le> reviewCount item)
         (getAllData w))
   \<and> snd (getStatistics lvl now w) = w"
proof -
  have four: "length intervals - Suc 0 = 4"
    by (simp add: intervals_def)
  have by_level: "byLevel (fst (getStatistics l0 now w)) =
      map (\<lambda>l. (l, spec_levelReport l now (getAllData w))) [''a1'', ''a2'', ''b1'', ''b2'', ''c1'', ''c2'']"
    for l0
    by (simp add: getStatistics_eq) (simp add: levels_def)
  have outer: "total (fst (getStatistics lvl now w)) =
       length (filter (\<lambda>(key, item). truthy lvl \<longrightarrow> level item = lvl) (getAllData w))"
    "dueToday (fst (getStatistics lvl now w)) =
       length (filter (\<lambda>(key, item). (truthy lvl \<longrightarrow> level item = lvl) \<and> nextReviewDate item \<le> now)
         (getAllData w))"
    "reviewed (fst (getStatistics lvl now w)) =
       length (filter (\<lambda>(key, item). (truthy lvl \<longrightarrow> level item = lvl) \<and> 0 < reviewCount item)
         (getAllData w))"
    "mastered (fst (getStatistics lvl now w)) =
       length (filter (\<lambda>(key, item). (truthy lvl \<longrightarrow> level item = lvl) \<and> 4 \<le> reviewCount item)
         (getAllData w))"
    by (simp_all add: getStatistics_eq getAllItems_length getDueItems_length getAllItems_count
        defaultNull_filter four)
  show ?thesis
    using by_level [of lvl] by_level [of lvl'] outer
    by (simp add: getStatistics_eq)
qed

text \<open>On the example store with the level argument a1: the entry for a2 still counts the
  sentence, while the outer total counts the a1 item alone.\<close>

theorem getStatistics_byLevel_witness:
  "byLevel (fst (getStatistics (JStr ''a1'') 5000 example_world)) =
     [(''a1'', \<lparr>lvl_total = 1, lvl_dueToday = 0, vocab = 1, sentences = 0\<rparr>),
      (''a2'', \<lparr>lvl_total = 1, lvl_dueToday = 1, vocab = 0, sentences = 1\<rparr>),
      (''b1'', \<lparr>lvl_total = 0, lvl_dueToday = 0, vocab = 0, sentences = 0\<rparr>),
      (''b2'', \<lparr>lvl_total = 0, lvl_dueToday = 0, vocab = 0, sentences = 0\<rparr>),
      (''c1'', \<lparr>lvl_total = 0, lvl_dueToday = 0, vocab = 0, sentences = 0\<rparr>),
      (''c2'', \<lparr>lvl_total = 0, lvl_dueToday = 0, vocab = 0, sentences = 0\<rparr>)]
   \<and> total (fst (getStatistics (JStr ''a1'') 5000 example_world)) = 1
   \<and> dueToday (fst (getStatistics (JStr ''a1'') 5000 example_world)) = 0
   \<and> total (fst (getStatistics JUndefined 5000 example_world)) = 2
   \<and> mastered (fst (getStatistics JUndefined 5000 example_world)) = 1"
  using getStatistics_byLevel [of "JStr ''a1''" 5000 example_world JNull]
    getStatistics_byLevel [of JUndefined 5000 example_world JNull]
  by (simp add: getAllData_def spec_levelReport_def)

subsection \<open>Import\<close>

text \<open>
  Claim C6, as amended. \<^verbatim>\<open>importData\<close> treats as an error only a file that cannot be read
  or whose text is not JSON: then it reports with \<^verbatim>\<open>console.error\<close> and \<^verbatim>\<open>alert\<close>, returns
  false and leaves storage unchanged. A value that was parsed, of whatever shape, is
  written to storage as it is when the user confirms, and true is returned; when the
  user declines, false is returned and the world is unchanged.
\<close>

theorem importData_outcomes:
  "(file = ReadError \<or> file = SyntaxError \<longrightarrow>
      importData file confirmed w = (False, emit Alert (emit ConsoleError w))
    \<and> storage (snd (importData file confirmed w)) = storage w
    \<and> Alert \<in> set (trace (snd (importData file confirmed w))))
   \<and> (importData (Parsed d) True w = (True, emit ConsoleLog (saveAllData d w))
      \<and> storage (snd (importData (Parsed d) True w)) = Some d
      \<and> trace (snd (importData (Parsed d) True w)) = trace w @ [SetItem, ConsoleLog])
   \<and> importData (Parsed d) False w = (False, w)"
  by (auto simp add: importData_def world_simps)

text \<open>A file whose text is not JSON, imported over a stored empty object.\<close>

theorem importData_outcomes_witness:
  "importData (SyntaxError :: json file_result) True \<lparr>storage = Some (JsonObject []), trace = []\<rparr> =
     (False, \<lparr>storage = Some (JsonObject []), trace = [ConsoleError, Alert]\<rparr>)"
  using importData_outcomes [of SyntaxError True "\<lparr>storage = Some (JsonObject []), trace = []\<rparr>" JsonNull]
  by (simp add: emit_def)

text \<open>Claim C6 as stated asks that contents of any shape other than the JSON object of
  the store be refused. The file \<^verbatim>\<open>[]\<close> parses to an array, which is not an object; when
  the user confirms, it is written to storage, true is returned and there is no alert.\<close>

theorem importData_counterexample:
  "\<not> isJsonObject (JsonArray [])
   \<and> importData (Parsed (JsonArray [])) True \<lparr>storage = None, trace = []\<rparr>
       = (True, \<lparr>storage = Some (JsonArray []), trace = [SetItem, ConsoleLog]\<rparr>)"
  by (simp add: importData_def saveAllData_def emit_def)

end
